theory Spec2Isabelle
  imports Complex_Main "HOL-Library.Sublist"
begin

section \<open>Values of the host language\<close>

text \<open>
  The client of \<^verbatim>\<open>vti_endpoint_client.py\<close> keeps the leased job as whatever
  \<^verbatim>\<open>json.loads\<close> made of the queue's response: a dynamically typed value. The
  model carries the same universe: \<^verbatim>\<open>None\<close>, booleans, unbounded integers, floats,
  text, lists and dictionaries with text keys. A dictionary is an association list read
  with \<open>map_of\<close> (the first binding of a key counts) and written in place.
  A float is its exact rational value, or one of the three special values that
  \<^verbatim>\<open>json.loads\<close> can produce. Text is a list of 8-bit characters.
\<close>

datatype pyfloat = Finite rat | PosInf | NegInf | NaN

datatype pyval =
    PNone
  | PBool bool
  | PInt int
  | PFloat pyfloat
  | PStr string
  | PList "pyval list"
  | PDict "(string \<times> pyval) list"

text \<open>The exceptions that the modelled code can raise.\<close>

datatype error =
    KeyError
  | TypeError
  | ValueError
  | AttributeError
  | OverflowError
  | ConnectionError
  | Timeout

text \<open>\<^verbatim>\<open>bool(v)\<close>, as used by \<^verbatim>\<open>if v:\<close> and \<^verbatim>\<open>not v\<close>.\<close>

fun py_truthy :: "pyval \<Rightarrow> bool" where
  "py_truthy PNone = False"
| "py_truthy (PBool b) = b"
| "py_truthy (PInt i) = (i \<noteq> 0)"
| "py_truthy (PFloat (Finite r)) = (r \<noteq> 0)"
| "py_truthy (PFloat _) = True"
| "py_truthy (PStr s) = (s \<noteq> [])"
| "py_truthy (PList xs) = (xs \<noteq> [])"
| "py_truthy (PDict d) = (d \<noteq> [])"

text \<open>
  \<^verbatim>\<open>v == n\<close> for an integer constant \<open>n\<close>: numbers compare by value across
  \<^verbatim>\<open>bool\<close>, \<^verbatim>\<open>int\<close> and \<^verbatim>\<open>float\<close> (\<^verbatim>\<open>True == 1\<close>,
  \<^verbatim>\<open>1.0 == 1\<close>); a value of any other type is unequal to every integer.
\<close>

fun py_eq_int :: "pyval \<Rightarrow> int \<Rightarrow> bool" where
  "py_eq_int (PInt i) n = (i = n)"
| "py_eq_int (PBool b) n = ((if b then 1 else 0) = n)"
| "py_eq_int (PFloat (Finite r)) n = (r = of_int n)"
| "py_eq_int _ n = False"

text \<open>
  \<^verbatim>\<open>v[key]\<close> with a text key: a dictionary looks the key up and raises
  \<^verbatim>\<open>KeyError\<close> when it is missing; every other type raises \<^verbatim>\<open>TypeError\<close>
  (text and lists take integer indices only, the rest cannot be subscripted).
\<close>

fun py_getitem :: "pyval \<Rightarrow> string \<Rightarrow> error + pyval" where
  "py_getitem (PDict d) k = (case map_of d k of None \<Rightarrow> Inl KeyError | Some v \<Rightarrow> Inr v)"
| "py_getitem _ k = Inl TypeError"

text \<open>
  \<^verbatim>\<open>d[key] = v\<close> on an association list: the binding that \<open>map_of\<close> reads is
  replaced where it stands, a new key is appended.
\<close>

fun dict_set :: "(string \<times> pyval) list \<Rightarrow> string \<Rightarrow> pyval \<Rightarrow> (string \<times> pyval) list" where
  "dict_set [] k v = [(k, v)]"
| "dict_set ((k', v') # d) k v = (if k' = k then (k, v) # d else (k', v') # dict_set d k v)"

fun py_setitem :: "pyval \<Rightarrow> string \<Rightarrow> pyval \<Rightarrow> error + pyval" where
  "py_setitem (PDict d) k v = Inr (PDict (dict_set d k v))"
| "py_setitem _ k v = Inl TypeError"

text \<open>
  \<^verbatim>\<open>key in v\<close> for a text key: membership among a dictionary's keys, among a
  list's elements (only a text element equals a text key), substring test on text;
  \<^verbatim>\<open>TypeError\<close> on a value that is not a container.
\<close>

fun py_contains :: "string \<Rightarrow> pyval \<Rightarrow> error + bool" where
  "py_contains k (PDict d) = Inr (map_of d k \<noteq> None)"
| "py_contains k (PList xs) = Inr (PStr k \<in> set xs)"
| "py_contains k (PStr s) = Inr (sublist k s)"
| "py_contains k _ = Inl TypeError"

text \<open>\<^verbatim>\<open>len(v)\<close>.\<close>

fun py_len :: "pyval \<Rightarrow> error + nat" where
  "py_len (PStr s) = Inr (length s)"
| "py_len (PList xs) = Inr (length xs)"
| "py_len (PDict d) = Inr (length d)"
| "py_len _ = Inl TypeError"

text \<open>
  The first value that \<^verbatim>\<open>for x in v\<close> binds: the first element of a list, the
  first character of a text (as a text of length one), the first key of a dictionary.
  \<open>None\<close> when the loop body does not run.
\<close>

fun py_first :: "pyval \<Rightarrow> pyval option" where
  "py_first (PList (x # xs)) = Some x"
| "py_first (PStr (ch # s)) = Some (PStr [ch])"
| "py_first (PDict ((k, v) # d)) = Some (PStr k)"
| "py_first _ = None"

text \<open>
  \<^verbatim>\<open>s.split(sep)\<close> for a separator of one character: the pieces between the
  occurrences of the separator, empty pieces kept; never the empty list.
\<close>

fun split_on :: "char \<Rightarrow> string \<Rightarrow> string list" where
  "split_on sep [] = [[]]"
| "split_on sep (ch # s) =
     (if ch = sep then [] # split_on sep s
      else (case split_on sep s of
              [] \<Rightarrow> [[ch]]
            | piece # pieces \<Rightarrow> (ch # piece) # pieces))"

text \<open>
  \<^verbatim>\<open>v.split("/")[0]\<close>: only text has the method, another value raises
  \<^verbatim>\<open>AttributeError\<close>.
\<close>

fun py_split_first :: "pyval \<Rightarrow> error + string" where
  "py_split_first (PStr s) = Inr (hd (split_on (CHR ''/'') s))"
| "py_split_first _ = Inl AttributeError"

section \<open>The job status table\<close>

text \<open>\<^verbatim>\<open>JOB_STATUS_DICT\<close>, and \<^verbatim>\<open>JOB_STATUS_DICT[status]\<close> with its \<^verbatim>\<open>KeyError\<close>.\<close>

definition JOB_STATUS_DICT :: "(string \<times> int) list" where
  "JOB_STATUS_DICT =
     [(''ready'', 0), (''leased'', 1), (''complete'', 2),
      (''infra-err'', 3), (''expired'', 4), (''bootup-err'', 5)]"

definition job_status :: "string \<Rightarrow> error + int" where
  "job_status status =
     (case map_of JOB_STATUS_DICT status of None \<Rightarrow> Inl KeyError | Some n \<Rightarrow> Inr n)"

section \<open>The client\<close>

text \<open>
  A \<^verbatim>\<open>threading.Thread\<close> made by \<^verbatim>\<open>StartHeartbeat\<close>: the arguments of its
  target \<^verbatim>\<open>UpdateLeasedJobStatus\<close>, its \<^verbatim>\<open>daemon\<close> flag, and the attribute
  \<^verbatim>\<open>keep_running\<close>, which a fresh thread object does not have (\<open>None\<close>) and which
  \<^verbatim>\<open>StopHeartbeat\<close> sets.
\<close>

record heartbeat =
  target_status :: string
  target_interval :: int
  daemon :: bool
  keep_running :: "bool option"

text \<open>
  The attributes of a \<^verbatim>\<open>VtiEndpointClient\<close>. The request headers are a constant of
  the class and are left out. \<open>self_job\<close> is \<^verbatim>\<open>{}\<close> after construction,
  \<^verbatim>\<open>None\<close> after \<^verbatim>\<open>StopHeartbeat\<close>.
\<close>

record client =
  self_url :: string
  self_job :: pyval
  self_heartbeat_thread :: "heartbeat option"

text \<open>
  What a method does besides returning, in program order: each HTTP request with its URL
  and the value it serialises, each thread started, and each write to the client's
  attributes. A method of the model returns its result or exception, the client as it
  leaves it, and the list of its effects. The body of a started thread runs concurrently
  with the caller; it is the separate function \<open>UpdateLeasedJobStatus\<close> below and is
  not interleaved with the caller's steps. Logging is not modelled.
\<close>

datatype event =
    Post string pyval
  | ThreadStart string int
  | SetKeepRunning bool
  | SetJob pyval
  | SetJobItem string pyval
  | Sleep int

text \<open>
  What \<^verbatim>\<open>requests.post\<close> does when it is called: it raises, or it returns a
  response with a status code and a body. The body is given by what \<^verbatim>\<open>json.loads\<close>
  makes of its text: a value, or \<^verbatim>\<open>ValueError\<close> for text that is not JSON.
\<close>

datatype body = NotJson | Json pyval

record response =
  status_code :: int
  text_json :: body

datatype outcome = Raises error | Responds response

type_synonym 'a result = "(error + 'a) \<times> client \<times> event list"

text \<open>\<^verbatim>\<open>VtiEndpointClient.__init__\<close>.\<close>

definition init_client :: "string \<Rightarrow> client" where
  "init_client url =
     \<lparr> self_url =
         (if url = ''localhost'' then ''http://localhost:8080/_ah/api/''
          else let url1 = (if \<not> prefix ''https://'' url \<and> \<not> prefix ''http://'' url
                           then ''https://'' @ url else url)
               in if suffix ''appspot.com'' url1 then url1 @ ''/_ah/api/'' else url1),
       self_job = PDict [],
       self_heartbeat_thread = None \<rparr>"

text \<open>
  \<^verbatim>\<open>SetJobStatusFromLeasedTo\<close>: the condition reads \<^verbatim>\<open>self._job["status"]\<close>
  first, then the right-hand side looks the target up in the table, then the item is
  assigned.
\<close>

definition SetJobStatusFromLeasedTo :: "client \<Rightarrow> string \<Rightarrow> unit result" where
  "SetJobStatusFromLeasedTo c status =
     (if self_job c = PNone then (Inr (), c, [])
      else case py_getitem (self_job c) ''status'' of
        Inl e \<Rightarrow> (Inl e, c, [])
      | Inr cur \<Rightarrow>
          if py_eq_int cur 1 then
            (case job_status status of
               Inl e \<Rightarrow> (Inl e, c, [])
             | Inr n \<Rightarrow>
                 (case py_setitem (self_job c) ''status'' (PInt n) of
                    Inl e \<Rightarrow> (Inl e, c, [])
                  | Inr j \<Rightarrow> (Inr (), c\<lparr>self_job := j\<rparr>, [SetJobItem ''status'' (PInt n)])))
          else (Inr (), c, []))"

text \<open>
  \<^verbatim>\<open>StartHeartbeat\<close>: a new daemon thread is made and started when the client has
  none, or when the one it has carries the attribute \<^verbatim>\<open>keep_running\<close>; otherwise
  nothing happens.
\<close>

definition StartHeartbeat :: "client \<Rightarrow> string \<Rightarrow> int \<Rightarrow> client \<times> event list" where
  "StartHeartbeat c status update_interval =
     (if (case self_heartbeat_thread c of None \<Rightarrow> True | Some t \<Rightarrow> keep_running t \<noteq> None)
      then (c\<lparr>self_heartbeat_thread :=
                Some \<lparr> target_status = status, target_interval = update_interval,
                       daemon = True, keep_running = None \<rparr>\<rparr>,
            [ThreadStart status update_interval])
      else (c, []))"

text \<open>The result \<^verbatim>\<open>None, {}\<close> of \<^verbatim>\<open>LeaseJob\<close>.\<close>

definition empty_result :: "pyval \<times> pyval" where
  "empty_result = (PNone, PDict [])"

text \<open>
  \<^verbatim>\<open>"return_code" in response_json and response_json["return_code"] != "SUCCESS"\<close>.
  Only text equals the text \<^verbatim>\<open>"SUCCESS"\<close>.
\<close>

definition return_code_differs :: "pyval \<Rightarrow> error + bool" where
  "return_code_differs response_json =
     (case py_contains ''return_code'' response_json of
        Inl e \<Rightarrow> Inl e
      | Inr has \<Rightarrow>
          if has then
            (case py_getitem response_json ''return_code'' of
               Inl e \<Rightarrow> Inl e
             | Inr rc \<Rightarrow> Inr (rc \<noteq> PStr ''SUCCESS''))
          else Inr False)"

text \<open>
  The body of \<^verbatim>\<open>for job in jobs\<close> in \<^verbatim>\<open>LeaseJob\<close>, which returns in its first
  round: with \<open>execute\<close> the job becomes the held job and the heartbeat is started, then
  the test name is read and split. An exception of the last line leaves the writes of the
  lines before it in place.
\<close>

definition lease_first :: "client \<Rightarrow> bool \<Rightarrow> event list \<Rightarrow> pyval \<Rightarrow> (pyval \<times> pyval) result" where
  "lease_first c execute evs job =
     (case (if execute
            then (case StartHeartbeat (c\<lparr>self_job := job\<rparr>) ''leased'' 60 of
                    (c', es) \<Rightarrow> (c', evs @ SetJob job # es))
            else (c, evs)) of
        (c1, evs1) \<Rightarrow>
          (case py_getitem job ''test_name'' of
             Inl e \<Rightarrow> (Inl e, c1, evs1)
           | Inr test_name \<Rightarrow>
               (case py_split_first test_name of
                  Inl e \<Rightarrow> (Inl e, c1, evs1)
                | Inr category \<Rightarrow> (Inr (PStr category, job), c1, evs1))))"

text \<open>
  \<^verbatim>\<open>LeaseJob\<close>. \<open>out\<close> is what \<^verbatim>\<open>requests.post\<close> does if the method calls it.
  \<^verbatim>\<open>requests.codes.ok\<close> is 200.
\<close>

definition LeaseJob :: "client \<Rightarrow> string \<Rightarrow> bool \<Rightarrow> outcome \<Rightarrow> (pyval \<times> pyval) result" where
  "LeaseJob c hostname execute out =
     (if hostname = [] then (Inr empty_result, c, [])
      else
        let evs = [Post (self_url c @ ''job_queue/v1/get'') (PDict [(''hostname'', PStr hostname)])]
        in case out of
             Raises e \<Rightarrow> (Inl e, c, evs)
           | Responds r \<Rightarrow>
               if status_code r \<noteq> 200 then (Inr empty_result, c, evs)
               else
                 (case text_json r of
                    NotJson \<Rightarrow> (Inl ValueError, c, evs)
                  | Json response_json \<Rightarrow>
                      (case return_code_differs response_json of
                         Inl e \<Rightarrow> (Inl e, c, evs)
                       | Inr differs \<Rightarrow>
                           if differs then (Inr empty_result, c, evs)
                           else
                             (case py_contains ''jobs'' response_json of
                                Inl e \<Rightarrow> (Inl e, c, evs)
                              | Inr has_jobs \<Rightarrow>
                                  if \<not> has_jobs then (Inr empty_result, c, evs)
                                  else
                                    (case py_getitem response_json ''jobs'' of
                                       Inl e \<Rightarrow> (Inl e, c, evs)
                                     | Inr jobs \<Rightarrow>
                                         if \<not> py_truthy jobs then (Inr empty_result, c, evs)
                                         else
                                           (case py_len jobs of
                                              Inl e \<Rightarrow> (Inl e, c, evs)
                                            | Inr n \<Rightarrow>
                                                if n > 0 then
                                                  (case py_first jobs of
                                                     None \<Rightarrow> (Inr empty_result, c, evs)
                                                   | Some job \<Rightarrow> lease_first c execute evs job)
                                                else (Inr empty_result, c, evs)))))))"

text \<open>
  \<^verbatim>\<open>StopHeartbeat\<close>. Setting an attribute of \<^verbatim>\<open>None\<close> raises
  \<^verbatim>\<open>AttributeError\<close>, so a client that never started a heartbeat fails at the first
  line. \<open>out\<close> is what the final \<^verbatim>\<open>requests.post\<close> does if it is reached.
\<close>

definition StopHeartbeat :: "client \<Rightarrow> string \<Rightarrow> string \<Rightarrow> outcome \<Rightarrow> unit result" where
  "StopHeartbeat c status infra_log_url out =
     (case self_heartbeat_thread c of
        None \<Rightarrow> (Inl AttributeError, c, [])
      | Some t \<Rightarrow>
          let c1 = c\<lparr>self_heartbeat_thread := Some (t\<lparr>keep_running := Some False\<rparr>)\<rparr>;
              evs1 = [SetKeepRunning False]
          in if self_job c1 = PNone then (Inr (), c1, evs1)
             else
               (case SetJobStatusFromLeasedTo c1 status of
                  (Inl e, c2, evs2) \<Rightarrow> (Inl e, c2, evs1 @ evs2)
                | (Inr u, c2, evs2) \<Rightarrow>
                    (case py_setitem (self_job c2) ''infra_log_url'' (PStr infra_log_url) of
                       Inl e \<Rightarrow> (Inl e, c2, evs1 @ evs2)
                     | Inr j \<Rightarrow>
                         let c3 = c2\<lparr>self_job := j\<rparr>;
                             evs3 = evs1 @ evs2 @
                                    [SetJobItem ''infra_log_url'' (PStr infra_log_url),
                                     Post (self_url c3 @ ''job_queue/v1/heartbeat'') j]
                         in (case out of
                               Raises e \<Rightarrow> (Inl e, c3, evs3)
                             | Responds r \<Rightarrow>
                                 (Inr (), c3\<lparr>self_job := PNone\<rparr>, evs3 @ [SetJob PNone])))))"

text \<open>\<^verbatim>\<open>CheckBootUpStatus\<close>; \<^verbatim>\<open>JOB_STATUS_DICT["bootup-err"]\<close> is 5.\<close>

definition CheckBootUpStatus :: "client \<Rightarrow> error + bool" where
  "CheckBootUpStatus c =
     (if py_truthy (self_job c) then
        (case py_getitem (self_job c) ''status'' of
           Inl e \<Rightarrow> Inl e
         | Inr cur \<Rightarrow>
             (case job_status ''bootup-err'' of
                Inl e \<Rightarrow> Inl e
              | Inr n \<Rightarrow> Inr (\<not> py_eq_int cur n)))
      else Inr False)"

text \<open>
  \<^verbatim>\<open>int(v)\<close>. An integer is itself, a boolean is 0 or 1, a float is truncated towards
  zero (\<^verbatim>\<open>ValueError\<close> for NaN, \<^verbatim>\<open>OverflowError\<close> for an infinity), text is
  parsed (\<^verbatim>\<open>ValueError\<close> when it is no integer literal), and \<^verbatim>\<open>None\<close>, lists
  and dictionaries raise \<^verbatim>\<open>TypeError\<close>. The grammar of integer literals belongs to
  the interpreter, not to this repository: it is the parameter \<open>parse\<close>, \<open>None\<close> for
  text that \<^verbatim>\<open>int\<close> rejects.
\<close>

fun py_int :: "(string \<Rightarrow> int option) \<Rightarrow> pyval \<Rightarrow> error + int" where
  "py_int parse (PInt i) = Inr i"
| "py_int parse (PBool b) = Inr (if b then 1 else 0)"
| "py_int parse (PFloat (Finite r)) = Inr (if 0 \<le> r then \<lfloor>r\<rfloor> else \<lceil>r\<rceil>)"
| "py_int parse (PFloat NaN) = Inl ValueError"
| "py_int parse (PFloat _) = Inl OverflowError"
| "py_int parse (PStr s) = (case parse s of None \<Rightarrow> Inl ValueError | Some i \<Rightarrow> Inr i)"
| "py_int parse _ = Inl TypeError"

text \<open>
  \<^verbatim>\<open>GetJobTestType\<close>. The \<^verbatim>\<open>try\<close> block holds the subscript and the conversion;
  its handler catches \<^verbatim>\<open>ValueError\<close> only and falls through to \<^verbatim>\<open>return 0\<close>.
\<close>

definition GetJobTestType :: "(string \<Rightarrow> int option) \<Rightarrow> client \<Rightarrow> error + int" where
  "GetJobTestType parse c =
     (if py_truthy (self_job c) then
        (case py_contains ''test_type'' (self_job c) of
           Inl e \<Rightarrow> Inl e
         | Inr has \<Rightarrow>
             if has then
               (case (case py_getitem (self_job c) ''test_type'' of
                        Inl e \<Rightarrow> Inl e
                      | Inr v \<Rightarrow> py_int parse v) of
                  Inl e \<Rightarrow> (if e = ValueError then Inr 0 else Inl e)
                | Inr i \<Rightarrow> Inr i)
             else Inr 0)
      else Inr 0)"

text \<open>
  A plain decimal reader, used where a concrete \<open>parse\<close> is needed: an optional sign and
  one or more ASCII digits.
\<close>

fun digits_value :: "nat \<Rightarrow> string \<Rightarrow> nat option" where
  "digits_value acc [] = Some acc"
| "digits_value acc (ch # s) =
     (let n = (of_char ch :: nat)
      in if 48 \<le> n \<and> n \<le> 57 then digits_value (10 * acc + (n - 48)) s else None)"

definition decimal_int :: "string \<Rightarrow> int option" where
  "decimal_int s =
     (case s of
        [] \<Rightarrow> None
      | ch # rest \<Rightarrow>
          if ch = CHR ''-'' then
            (if rest = [] then None else map_option (\<lambda>n. - int n) (digits_value 0 rest))
          else if ch = CHR ''+'' then
            (if rest = [] then None else map_option int (digits_value 0 rest))
          else map_option int (digits_value 0 s))"

text \<open>
  \<^verbatim>\<open>UpdateLeasedJobStatus\<close>, the body of the heartbeat thread. Its loop reads two
  things that the foreground can change between rounds: the attribute
  \<^verbatim>\<open>keep_running\<close> of the running thread (absent means true) and \<^verbatim>\<open>self._job\<close>.
  A round of the schedule gives what the loop reads at its head, the job it then
  serialises, and what \<^verbatim>\<open>requests.post\<close> does. The loop ends when it reads a false
  flag or when the request raises; when the schedule is used up it is still running.
\<close>

datatype loop_end = Returned | Running

fun heartbeat_loop ::
  "string \<Rightarrow> int \<Rightarrow> (bool option \<times> pyval \<times> outcome) list \<Rightarrow> (error + loop_end) \<times> event list" where
  "heartbeat_loop url update_interval [] = (Inr Running, [])"
| "heartbeat_loop url update_interval ((flag, job, out) # rounds) =
     (if flag = Some False then (Inr Returned, [])
      else
        (case out of
           Raises e \<Rightarrow> (Inl e, [Post url job])
         | Responds r \<Rightarrow>
             (case heartbeat_loop url update_interval rounds of
                (res, evs) \<Rightarrow> (res, Post url job # Sleep update_interval # evs))))"

definition UpdateLeasedJobStatus ::
  "client \<Rightarrow> string \<Rightarrow> int \<Rightarrow> (bool option \<times> pyval \<times> outcome) list \<Rightarrow> loop_end result" where
  "UpdateLeasedJobStatus c status update_interval rounds =
     (if self_job c = PNone then (Inr Returned, c, [])
      else
        (case job_status status of
           Inl e \<Rightarrow> (Inl e, c, [])
         | Inr n \<Rightarrow>
             (case py_setitem (self_job c) ''status'' (PInt n) of
                Inl e \<Rightarrow> (Inl e, c, [])
              | Inr j \<Rightarrow>
                  (case heartbeat_loop (self_url c @ ''job_queue/v1/heartbeat'')
                          update_interval rounds of
                     (res, evs) \<Rightarrow>
                       (res, c\<lparr>self_job := j\<rparr>, SetJobItem ''status'' (PInt n) # evs)))))"

text \<open>
  \<^verbatim>\<open>UploadHostVersion\<close>, one of the two methods of the class that wrap their request
  in \<^verbatim>\<open>try ... except requests.exceptions.ConnectionError\<close>.
\<close>

definition UploadHostVersion :: "client \<Rightarrow> string \<Rightarrow> string \<Rightarrow> outcome \<Rightarrow> unit result" where
  "UploadHostVersion c hostname vtslab_version out =
     (let evs = [Post (self_url c @ ''lab_info/v1/set_version'')
                   (PDict [(''hostname'', PStr hostname),
                           (''vtslab_version'', PStr vtslab_version)])]
      in case out of
           Raises e \<Rightarrow> (if e = ConnectionError then (Inr (), c, evs) else (Inl e, c, evs))
         | Responds r \<Rightarrow> (Inr (), c, evs))"

section \<open>Sample values\<close>

text \<open>
  A job as the queue sends it, a heartbeat thread as \<^verbatim>\<open>LeaseJob\<close> starts it, a client
  of the local development endpoint and a response with status 200: the concrete inputs
  at which the theorems below are instantiated.
\<close>

definition demo_job :: "int \<Rightarrow> pyval" where
  "demo_job st = PDict [(''test_name'', PStr ''suite1/caseX''), (''status'', PInt st)]"

definition demo_thread :: "bool option \<Rightarrow> heartbeat" where
  "demo_thread flag =
     \<lparr> target_status = ''leased'', target_interval = 60, daemon = True, keep_running = flag \<rparr>"

definition demo_client :: "pyval \<Rightarrow> heartbeat option \<Rightarrow> client" where
  "demo_client j t =
     \<lparr> self_url = ''http://localhost:8080/_ah/api/'', self_job = j, self_heartbeat_thread = t \<rparr>"

definition demo_response :: "pyval \<Rightarrow> response" where
  "demo_response v = \<lparr> status_code = 200, text_json = Json v \<rparr>"

section \<open>Auxiliary facts\<close>

lemma split_on_not_Nil: "split_on sep s \<noteq> []"
  by (induction s) (auto split: list.splits)

lemma hd_split_on: "hd (split_on sep s) = takeWhile (\<lambda>ch. ch \<noteq> sep) s"
  by (induction s) (auto split: list.splits simp: split_on_not_Nil)

lemma job_status_simps:
  "job_status ''ready'' = Inr 0"
  "job_status ''leased'' = Inr 1"
  "job_status ''complete'' = Inr 2"
  "job_status ''infra-err'' = Inr 3"
  "job_status ''expired'' = Inr 4"
  "job_status ''bootup-err'' = Inr 5"
  by (simp_all add: job_status_def JOB_STATUS_DICT_def)

lemma map_of_dict_set: "map_of (dict_set d k v) k = Some v"
  by (induction d k v rule: dict_set.induct) auto

lemma getitem_setitem: "py_setitem j k v = Inr j' \<Longrightarrow> py_getitem j' k = Inr v"
  by (cases j) (auto simp: map_of_dict_set)

lemma SetJobStatus_unchanged:
  "py_getitem (self_job c) ''status'' = Inr cur \<Longrightarrow> \<not> py_eq_int cur 1 \<Longrightarrow>
     SetJobStatusFromLeasedTo c status = (Inr (), c, [])"
  by (auto simp: SetJobStatusFromLeasedTo_def)

lemma SetJobStatus_changed:
  assumes "fst (snd (SetJobStatusFromLeasedTo c status)) \<noteq> c"
  shows "\<exists>cur n. py_getitem (self_job c) ''status'' = Inr cur \<and> py_eq_int cur 1 \<and>
           job_status status = Inr n \<and>
           py_getitem (self_job (fst (snd (SetJobStatusFromLeasedTo c status)))) ''status''
             = Inr (PInt n)"
  using assms
  by (auto simp: SetJobStatusFromLeasedTo_def getitem_setitem split: if_splits sum.splits)

lemma StopHeartbeat_events:
  "StopHeartbeat c status infra_log_url out = (r, c', evs) \<Longrightarrow>
     evs = [] \<or> (\<exists>rest t. evs = SetKeepRunning False # rest \<and>
        self_heartbeat_thread c' = Some t \<and> keep_running t = Some False)"
  by (auto simp: StopHeartbeat_def SetJobStatusFromLeasedTo_def Let_def
      split: option.splits if_splits sum.splits outcome.splits prod.splits)

lemma StopHeartbeat_completes:
  assumes "StopHeartbeat c status infra_log_url out = (Inr (), c', evs)"
  shows "self_job c' = PNone \<and>
         (\<exists>t. self_heartbeat_thread c' = Some t \<and> keep_running t = Some False)"
  using assms
  by (auto simp: StopHeartbeat_def SetJobStatusFromLeasedTo_def Let_def
      split: option.splits if_splits sum.splits outcome.splits prod.splits)

lemma StopHeartbeat_idle:
  assumes "self_job c = PNone" "self_heartbeat_thread c = Some t" "keep_running t = Some False"
  shows "StopHeartbeat c status infra_log_url out = (Inr (), c, [SetKeepRunning False])"
proof -
  have "t\<lparr>keep_running := Some False\<rparr> = t"
    using assms(3) by simp
  then have "c\<lparr>self_heartbeat_thread := Some (t\<lparr>keep_running := Some False\<rparr>)\<rparr> = c"
    using assms(2) by simp
  then show ?thesis
    using assms(1,2) by (simp add: StopHeartbeat_def Let_def)
qed

lemma LeaseJob_dict_jobs:
  assumes "hostname \<noteq> []" "status_code r = 200" "text_json r = Json (PDict d)"
    and "map_of d ''return_code'' = None \<or> map_of d ''return_code'' = Some (PStr ''SUCCESS'')"
    and "map_of d ''jobs'' = Some (PList (job # others))"
  shows "LeaseJob c hostname execute (Responds r) =
     lease_first c execute
       [Post (self_url c @ ''job_queue/v1/get'') (PDict [(''hostname'', PStr hostname)])] job"
  using assms by (auto simp: LeaseJob_def return_code_differs_def Let_def)

lemma lease_first_no_execute:
  "lease_first c False evs job = (r, c', evs') \<Longrightarrow> c' = c \<and> evs' = evs"
  by (auto simp: lease_first_def split: sum.splits)

lemma LeaseJob_no_execute_frame:
  assumes "LeaseJob c hostname False out = (res, c', evs)"
  shows "c' = c \<and> (evs = [] \<or>
     evs = [Post (self_url c @ ''job_queue/v1/get'') (PDict [(''hostname'', PStr hostname)])])"
  using assms
  by (auto simp: LeaseJob_def Let_def
      split: if_splits outcome.splits body.splits sum.splits option.splits
      dest: lease_first_no_execute)

text \<open>
  The sibling method \<^verbatim>\<open>UploadHostVersion\<close> turns a connection failure into a normal
  return.
\<close>

lemma UploadHostVersion_catches:
  "UploadHostVersion c hostname vtslab_version (Raises ConnectionError) =
     (Inr (), c,
      [Post (self_url c @ ''lab_info/v1/set_version'')
         (PDict [(''hostname'', PStr hostname), (''vtslab_version'', PStr vtslab_version)])])"
  by (simp add: UploadHostVersion_def)

section \<open>The guarded transition\<close>

text \<open>
  Claim C1. \<^verbatim>\<open>SetJobStatusFromLeasedTo\<close> changes the client only when the held job's
  status compares equal to 1 (\<^verbatim>\<open>leased\<close>), and then the new status is the target's
  value of the table. For a job whose status does not equal 1 the call returns normally
  with the client as it was, whatever the target is; in particular a job at
  \<^verbatim>\<open>complete\<close> (2) stays at \<^verbatim>\<open>complete\<close>.
\<close>

theorem SetJobStatusFromLeasedTo_only_from_leased:
  "(fst (snd (SetJobStatusFromLeasedTo c status)) \<noteq> c \<longrightarrow>
      (\<exists>cur n. py_getitem (self_job c) ''status'' = Inr cur \<and> py_eq_int cur 1 \<and>
         job_status status = Inr n \<and>
         py_getitem (self_job (fst (snd (SetJobStatusFromLeasedTo c status)))) ''status''
           = Inr (PInt n)))
   \<and> (py_getitem (self_job c) ''status'' = Inr cur \<and> \<not> py_eq_int cur 1 \<longrightarrow>
        SetJobStatusFromLeasedTo c status = (Inr (), c, []))
   \<and> (py_getitem (self_job c) ''status'' = Inr (PInt 2) \<longrightarrow>
        SetJobStatusFromLeasedTo c status = (Inr (), c, []))"
proof (intro conjI impI)
  assume "fst (snd (SetJobStatusFromLeasedTo c status)) \<noteq> c"
  then show "\<exists>cur n. py_getitem (self_job c) ''status'' = Inr cur \<and> py_eq_int cur 1 \<and>
         job_status status = Inr n \<and>
         py_getitem (self_job (fst (snd (SetJobStatusFromLeasedTo c status)))) ''status''
           = Inr (PInt n)"
    by (rule SetJobStatus_changed)
next
  assume "py_getitem (self_job c) ''status'' = Inr cur \<and> \<not> py_eq_int cur 1"
  then show "SetJobStatusFromLeasedTo c status = (Inr (), c, [])"
    by (simp add: SetJobStatus_unchanged)
next
  assume "py_getitem (self_job c) ''status'' = Inr (PInt 2)"
  then show "SetJobStatusFromLeasedTo c status = (Inr (), c, [])"
    by (simp add: SetJobStatus_unchanged)
qed

theorem SetJobStatusFromLeasedTo_only_from_leased_witness:
  "fst (snd (SetJobStatusFromLeasedTo (demo_client (demo_job 1) None) ''infra-err''))
     \<noteq> demo_client (demo_job 1) None
   \<and> py_getitem (self_job (fst (snd (SetJobStatusFromLeasedTo
         (demo_client (demo_job 1) None) ''infra-err'')))) ''status'' = Inr (PInt 3)
   \<and> py_getitem (self_job (demo_client (demo_job 2) None)) ''status'' = Inr (PInt 2)
   \<and> SetJobStatusFromLeasedTo (demo_client (demo_job 2) None) ''infra-err''
       = (Inr (), demo_client (demo_job 2) None, [])"
proof -
  let ?leased = "demo_client (demo_job 1) None"
  let ?finished = "demo_client (demo_job 2) None"
  have changed: "fst (snd (SetJobStatusFromLeasedTo ?leased ''infra-err'')) \<noteq> ?leased"
    by (simp add: SetJobStatusFromLeasedTo_def job_status_simps demo_client_def demo_job_def)
  have at_complete: "py_getitem (self_job ?finished) ''status'' = Inr (PInt 2)"
    by (simp add: demo_client_def demo_job_def)
  from SetJobStatusFromLeasedTo_only_from_leased [of ?leased "''infra-err''"] changed
  have "\<exists>cur n. py_getitem (self_job ?leased) ''status'' = Inr cur \<and> py_eq_int cur 1 \<and>
         job_status ''infra-err'' = Inr n \<and>
         py_getitem (self_job (fst (snd (SetJobStatusFromLeasedTo ?leased ''infra-err''))))
           ''status'' = Inr (PInt n)"
    by blast
  then have new: "py_getitem (self_job (fst (snd (SetJobStatusFromLeasedTo ?leased ''infra-err''))))
           ''status'' = Inr (PInt 3)"
    by (auto simp: job_status_simps)
  from SetJobStatusFromLeasedTo_only_from_leased [of ?finished "''infra-err''"] at_complete
  have kept: "SetJobStatusFromLeasedTo ?finished ''infra-err'' = (Inr (), ?finished, [])"
    by blast
  from changed new at_complete kept show ?thesis
    by simp
qed

section \<open>Releasing the lease\<close>

text \<open>
  Claim C2. In every run of \<^verbatim>\<open>StopHeartbeat\<close>, whatever the client, the arguments and
  the outcome of the request: a write to an item of the held job (the status of the
  guarded transition, the log URL) is never the first effect, the first effect is the
  assignment \<^verbatim>\<open>keep_running = False\<close>, and the client that the run leaves has a
  heartbeat thread with the flag at false. A run that fails before the flag is set has no
  effect at all.
\<close>

theorem StopHeartbeat_cancels_before_status_write:
  assumes "StopHeartbeat c status infra_log_url out = (r, c', evs)"
    and "i < length evs"
    and "evs ! i = SetJobItem k v"
  shows "0 < i \<and> evs ! 0 = SetKeepRunning False \<and>
         (\<exists>t. self_heartbeat_thread c' = Some t \<and> keep_running t = Some False)"
proof -
  from assms(1) have
    "evs = [] \<or> (\<exists>rest t. evs = SetKeepRunning False # rest \<and>
        self_heartbeat_thread c' = Some t \<and> keep_running t = Some False)"
    by (rule StopHeartbeat_events)
  with assms(2) obtain rest t where
    shape: "evs = SetKeepRunning False # rest"
    and flag: "self_heartbeat_thread c' = Some t" "keep_running t = Some False"
    by auto
  from shape assms(3) have "i \<noteq> 0"
    by (cases i) auto
  with shape flag show ?thesis
    by simp
qed

theorem StopHeartbeat_cancels_before_status_write_witness:
  "StopHeartbeat (demo_client (demo_job 1) (Some (demo_thread None))) ''complete'' ''gs://logs/1''
       (Responds (demo_response PNone))
     = (Inr (), demo_client PNone (Some (demo_thread (Some False))),
        [SetKeepRunning False,
         SetJobItem ''status'' (PInt 2),
         SetJobItem ''infra_log_url'' (PStr ''gs://logs/1''),
         Post ''http://localhost:8080/_ah/api/job_queue/v1/heartbeat''
           (PDict [(''test_name'', PStr ''suite1/caseX''), (''status'', PInt 2),
                   (''infra_log_url'', PStr ''gs://logs/1'')]),
         SetJob PNone])
   \<and> (0::nat) < 1
   \<and> (\<exists>t. self_heartbeat_thread (demo_client PNone (Some (demo_thread (Some False)))) = Some t
          \<and> keep_running t = Some False)"
proof -
  let ?evs = "[SetKeepRunning False,
         SetJobItem ''status'' (PInt 2),
         SetJobItem ''infra_log_url'' (PStr ''gs://logs/1''),
         Post ''http://localhost:8080/_ah/api/job_queue/v1/heartbeat''
           (PDict [(''test_name'', PStr ''suite1/caseX''), (''status'', PInt 2),
                   (''infra_log_url'', PStr ''gs://logs/1'')]),
         SetJob PNone]"
  have run: "StopHeartbeat (demo_client (demo_job 1) (Some (demo_thread None))) ''complete''
       ''gs://logs/1'' (Responds (demo_response PNone))
     = (Inr (), demo_client PNone (Some (demo_thread (Some False))), ?evs)"
    by (simp add: StopHeartbeat_def SetJobStatusFromLeasedTo_def job_status_simps
        demo_client_def demo_job_def demo_thread_def demo_response_def)
  have len: "1 < length ?evs"
    by simp
  have at: "?evs ! 1 = SetJobItem ''status'' (PInt 2)"
    by simp
  from StopHeartbeat_cancels_before_status_write [OF run len at] run show ?thesis
    by simp
qed

text \<open>
  Claim C7. When \<^verbatim>\<open>StopHeartbeat\<close> returns normally, no job is held any more:
  \<^verbatim>\<open>self._job\<close> is \<^verbatim>\<open>None\<close>, \<^verbatim>\<open>CheckBootUpStatus\<close> returns false,
  \<^verbatim>\<open>GetJobTestType\<close> returns 0, and a further \<^verbatim>\<open>StopHeartbeat\<close>, with any
  arguments, returns normally, leaves the client as it is and sends no request: its only
  effect is to assign \<^verbatim>\<open>keep_running = False\<close> again.
\<close>

theorem StopHeartbeat_clears_lease:
  assumes "StopHeartbeat c status infra_log_url out = (Inr (), c', evs)"
  shows "self_job c' = PNone \<and> CheckBootUpStatus c' = Inr False \<and>
         GetJobTestType parse c' = Inr 0 \<and>
         StopHeartbeat c' status' infra_log_url' out' = (Inr (), c', [SetKeepRunning False])"
proof -
  from StopHeartbeat_completes [OF assms] obtain t where
    cleared: "self_job c' = PNone"
    and stopped: "self_heartbeat_thread c' = Some t" "keep_running t = Some False"
    by blast
  from cleared StopHeartbeat_idle [OF cleared stopped] show ?thesis
    by (simp add: CheckBootUpStatus_def GetJobTestType_def)
qed

theorem StopHeartbeat_clears_lease_witness:
  "StopHeartbeat (demo_client (demo_job 1) (Some (demo_thread None))) ''complete'' []
       (Responds (demo_response PNone))
     = (Inr (), demo_client PNone (Some (demo_thread (Some False))),
        [SetKeepRunning False,
         SetJobItem ''status'' (PInt 2),
         SetJobItem ''infra_log_url'' (PStr []),
         Post ''http://localhost:8080/_ah/api/job_queue/v1/heartbeat''
           (PDict [(''test_name'', PStr ''suite1/caseX''), (''status'', PInt 2),
                   (''infra_log_url'', PStr [])]),
         SetJob PNone])
   \<and> CheckBootUpStatus (demo_client PNone (Some (demo_thread (Some False)))) = Inr False
   \<and> GetJobTestType decimal_int (demo_client PNone (Some (demo_thread (Some False)))) = Inr 0
   \<and> StopHeartbeat (demo_client PNone (Some (demo_thread (Some False)))) ''infra-err''
        ''gs://logs/2'' (Raises ConnectionError)
      = (Inr (), demo_client PNone (Some (demo_thread (Some False))), [SetKeepRunning False])"
proof -
  have run: "StopHeartbeat (demo_client (demo_job 1) (Some (demo_thread None))) ''complete'' []
       (Responds (demo_response PNone))
     = (Inr (), demo_client PNone (Some (demo_thread (Some False))),
        [SetKeepRunning False,
         SetJobItem ''status'' (PInt 2),
         SetJobItem ''infra_log_url'' (PStr []),
         Post ''http://localhost:8080/_ah/api/job_queue/v1/heartbeat''
           (PDict [(''test_name'', PStr ''suite1/caseX''), (''status'', PInt 2),
                   (''infra_log_url'', PStr [])]),
         SetJob PNone])"
    by (simp add: StopHeartbeat_def SetJobStatusFromLeasedTo_def job_status_simps
        demo_client_def demo_job_def demo_thread_def demo_response_def)
  from StopHeartbeat_clears_lease [OF run, of decimal_int "''infra-err''" "''gs://logs/2''"
      "Raises ConnectionError"] run
  show ?thesis
    by simp
qed

section \<open>Leasing a job\<close>

text \<open>
  Claim C3. \<^verbatim>\<open>LeaseJob\<close> with an empty hostname returns \<^verbatim>\<open>None, {}\<close>, leaves the
  client as it is and has no effect: no request is sent, whatever the execute flag and
  whatever the network would have answered.
\<close>

theorem LeaseJob_empty_hostname:
  "LeaseJob c [] execute out = (Inr (PNone, PDict []), c, [])"
  by (simp add: LeaseJob_def empty_result_def)

text \<open>
  Claim C4. For a response with status 200 whose body is a JSON object without a
  \<^verbatim>\<open>return_code\<close> other than \<^verbatim>\<open>"SUCCESS"\<close> and whose \<^verbatim>\<open>jobs\<close> is a list with at
  least one entry, the first entry having a text \<^verbatim>\<open>test_name\<close>: \<^verbatim>\<open>LeaseJob\<close> (with
  the default \<open>execute = True\<close>) returns that first entry together with the part of its
  test name before the first \<^verbatim>\<open>/\<close>, the first entry is the held job afterwards, and a
  heartbeat thread is attached to the client.
\<close>

theorem LeaseJob_takes_first_job:
  assumes "hostname \<noteq> []" and "status_code r = 200" and "text_json r = Json (PDict d)"
    and "map_of d ''return_code'' = None \<or> map_of d ''return_code'' = Some (PStr ''SUCCESS'')"
    and "map_of d ''jobs'' = Some (PList (job # others))"
    and "py_getitem job ''test_name'' = Inr (PStr test_name)"
  shows "\<exists>c' evs. LeaseJob c hostname True (Responds r) =
             (Inr (PStr (takeWhile (\<lambda>ch. ch \<noteq> CHR ''/'') test_name), job), c', evs)
           \<and> self_job c' = job \<and> self_heartbeat_thread c' \<noteq> None"
  using assms(6)
  by (auto simp: LeaseJob_dict_jobs [OF assms(1-5)] lease_first_def StartHeartbeat_def
      hd_split_on split: option.splits)

theorem LeaseJob_takes_first_job_witness:
  "''hostA'' \<noteq> []
   \<and> status_code (demo_response (PDict [(''jobs'', PList [demo_job 0, demo_job 4])])) = 200
   \<and> py_getitem (demo_job 0) ''test_name'' = Inr (PStr ''suite1/caseX'')
   \<and> (\<exists>c' evs. LeaseJob (init_client ''localhost'') ''hostA'' True
          (Responds (demo_response (PDict [(''jobs'', PList [demo_job 0, demo_job 4])])))
        = (Inr (PStr ''suite1'', demo_job 0), c', evs)
        \<and> self_job c' = demo_job 0 \<and> self_heartbeat_thread c' \<noteq> None)"
proof -
  let ?d = "[(''jobs'', PList [demo_job 0, demo_job 4])]"
  have h1: "''hostA'' \<noteq> []"
    by simp
  have h2: "status_code (demo_response (PDict ?d)) = 200"
    by (simp add: demo_response_def)
  have h3: "text_json (demo_response (PDict ?d)) = Json (PDict ?d)"
    by (simp add: demo_response_def)
  have h4: "map_of ?d ''return_code'' = None \<or> map_of ?d ''return_code'' = Some (PStr ''SUCCESS'')"
    by simp
  have h5: "map_of ?d ''jobs'' = Some (PList (demo_job 0 # [demo_job 4]))"
    by simp
  have h6: "py_getitem (demo_job 0) ''test_name'' = Inr (PStr ''suite1/caseX'')"
    by (simp add: demo_job_def)
  from LeaseJob_takes_first_job [OF h1 h2 h3 h4 h5 h6, of "init_client ''localhost''"] h2 h6
  show ?thesis
    by simp
qed



text \<open>
  Claim C10. With \<open>execute = False\<close>, \<^verbatim>\<open>LeaseJob\<close> never writes to the client and never
  starts a thread, whatever the response. For a response with status 200 whose body is a
  JSON object without a \<^verbatim>\<open>return_code\<close> other than \<^verbatim>\<open>"SUCCESS"\<close> and with a
  non-empty \<^verbatim>\<open>jobs\<close> list whose first entry has a text \<^verbatim>\<open>test_name\<close>, it returns
  that entry and the part of its test name before the first \<^verbatim>\<open>/\<close>; the client is
  unchanged and the request is the only effect.
\<close>

theorem LeaseJob_without_execute:
  assumes "hostname \<noteq> []" and "status_code r = 200" and "text_json r = Json (PDict d)"
    and "map_of d ''return_code'' = None \<or> map_of d ''return_code'' = Some (PStr ''SUCCESS'')"
    and "map_of d ''jobs'' = Some (PList (job # others))"
    and "py_getitem job ''test_name'' = Inr (PStr test_name)"
  shows "LeaseJob c hostname False (Responds r) =
           (Inr (PStr (takeWhile (\<lambda>ch. ch \<noteq> CHR ''/'') test_name), job), c,
            [Post (self_url c @ ''job_queue/v1/get'') (PDict [(''hostname'', PStr hostname)])])
         \<and> (\<forall>out. fst (snd (LeaseJob c hostname False out)) = c
              \<and> (\<forall>s n. ThreadStart s n \<notin> set (snd (snd (LeaseJob c hostname False out))))
              \<and> (\<forall>j. SetJob j \<notin> set (snd (snd (LeaseJob c hostname False out)))))"
proof -
  have frame: "fst (snd (LeaseJob c hostname False out)) = c
      \<and> (\<forall>s n. ThreadStart s n \<notin> set (snd (snd (LeaseJob c hostname False out))))
      \<and> (\<forall>j. SetJob j \<notin> set (snd (snd (LeaseJob c hostname False out))))" for out
  proof -
    obtain res c' evs where run: "LeaseJob c hostname False out = (res, c', evs)"
      by (cases "LeaseJob c hostname False out") auto
    from LeaseJob_no_execute_frame [OF run] run show ?thesis
      by auto
  qed
  from assms(6) have "LeaseJob c hostname False (Responds r) =
           (Inr (PStr (takeWhile (\<lambda>ch. ch \<noteq> CHR ''/'') test_name), job), c,
            [Post (self_url c @ ''job_queue/v1/get'') (PDict [(''hostname'', PStr hostname)])])"
    by (simp add: LeaseJob_dict_jobs [OF assms(1-5)] lease_first_def hd_split_on)
  with frame show ?thesis
    by blast
qed

theorem LeaseJob_without_execute_witness:
  "''hostA'' \<noteq> []
   \<and> py_getitem (demo_job 0) ''test_name'' = Inr (PStr ''suite1/caseX'')
   \<and> LeaseJob (demo_client (demo_job 5) (Some (demo_thread (Some False)))) ''hostA'' False
        (Responds (demo_response (PDict [(''jobs'', PList [demo_job 0, demo_job 4])])))
      = (Inr (PStr ''suite1'', demo_job 0),
         demo_client (demo_job 5) (Some (demo_thread (Some False))),
         [Post ''http://localhost:8080/_ah/api/job_queue/v1/get''
            (PDict [(''hostname'', PStr ''hostA'')])])"
proof -
  let ?d = "[(''jobs'', PList [demo_job 0, demo_job 4])]"
  let ?c = "demo_client (demo_job 5) (Some (demo_thread (Some False)))"
  have h1: "''hostA'' \<noteq> []"
    by simp
  have h2: "status_code (demo_response (PDict ?d)) = 200"
    by (simp add: demo_response_def)
  have h3: "text_json (demo_response (PDict ?d)) = Json (PDict ?d)"
    by (simp add: demo_response_def)
  have h4: "map_of ?d ''return_code'' = None \<or> map_of ?d ''return_code'' = Some (PStr ''SUCCESS'')"
    by simp
  have h5: "map_of ?d ''jobs'' = Some (PList (demo_job 0 # [demo_job 4]))"
    by simp
  have h6: "py_getitem (demo_job 0) ''test_name'' = Inr (PStr ''suite1/caseX'')"
    by (simp add: demo_job_def)
  have u: "self_url ?c = ''http://localhost:8080/_ah/api/''"
    by (simp add: demo_client_def)
  from LeaseJob_without_execute [OF h1 h2 h3 h4 h5 h6, of ?c] h6 u show ?thesis
    by simp
qed

section \<open>Queries on the held job\<close>

text \<open>
  Claim C8. For a held job whose status is an integer \<open>n\<close>, \<^verbatim>\<open>CheckBootUpStatus\<close>
  returns true exactly when \<open>n\<close> is not 5 (\<^verbatim>\<open>bootup-err\<close>): true for each of the other
  values of the table, false for 5. It returns false when no job is held, that is when
  \<^verbatim>\<open>self._job\<close> is \<^verbatim>\<open>None\<close> or the empty dictionary of a new client.
\<close>

theorem CheckBootUpStatus_cases:
  "(self_job c = PDict d \<and> map_of d ''status'' = Some (PInt n) \<longrightarrow>
       CheckBootUpStatus c = Inr (n \<noteq> 5))
   \<and> (self_job c = PNone \<or> self_job c = PDict [] \<longrightarrow> CheckBootUpStatus c = Inr False)"
  by (auto simp: CheckBootUpStatus_def job_status_simps)

theorem CheckBootUpStatus_cases_witness:
  "CheckBootUpStatus (demo_client (demo_job 0) None) = Inr True
   \<and> CheckBootUpStatus (demo_client (demo_job 1) None) = Inr True
   \<and> CheckBootUpStatus (demo_client (demo_job 2) None) = Inr True
   \<and> CheckBootUpStatus (demo_client (demo_job 3) None) = Inr True
   \<and> CheckBootUpStatus (demo_client (demo_job 4) None) = Inr True
   \<and> CheckBootUpStatus (demo_client (demo_job 5) None) = Inr False
   \<and> CheckBootUpStatus (demo_client PNone None) = Inr False
   \<and> CheckBootUpStatus (init_client ''localhost'') = Inr False"
proof -
  have held: "self_job (demo_client (demo_job n) None)
        = PDict [(''test_name'', PStr ''suite1/caseX''), (''status'', PInt n)]
      \<and> map_of [(''test_name'', PStr ''suite1/caseX''), (''status'', PInt n)] ''status''
        = Some (PInt n)" for n
    by (simp add: demo_client_def demo_job_def)
  have none: "self_job (demo_client PNone None) = PNone
      \<or> self_job (demo_client PNone None) = PDict []"
    by (simp add: demo_client_def)
  have fresh: "self_job (init_client ''localhost'') = PNone
      \<or> self_job (init_client ''localhost'') = PDict []"
    by (simp add: init_client_def)
  have at: "CheckBootUpStatus (demo_client (demo_job n) None) = Inr (n \<noteq> 5)" for n
    using CheckBootUpStatus_cases [of "demo_client (demo_job n) None"
        "[(''test_name'', PStr ''suite1/caseX''), (''status'', PInt n)]" n] held [of n]
    by blast
  from at [of 0] at [of 1] at [of 2] at [of 3] at [of 4] at [of 5]
    CheckBootUpStatus_cases [of "demo_client PNone None"] none
    CheckBootUpStatus_cases [of "init_client ''localhost''"] fresh
  show ?thesis
    by simp
qed

text \<open>
  What \<^verbatim>\<open>GetJobTestType\<close> does on every client: 0 when no job is held or the held
  job has no \<^verbatim>\<open>test_type\<close>; otherwise the result of \<^verbatim>\<open>int\<close> on the value,
  with \<^verbatim>\<open>ValueError\<close> (text that is no integer literal, NaN) replaced by 0 and every
  other exception of the conversion passed on.
\<close>

lemma GetJobTestType_converts:
  "(\<not> py_truthy (self_job c) \<longrightarrow> GetJobTestType parse c = Inr 0)
   \<and> (self_job c = PDict d \<and> map_of d ''test_type'' = None \<longrightarrow>
        GetJobTestType parse c = Inr 0)
   \<and> (self_job c = PDict d \<and> map_of d ''test_type'' = Some v \<longrightarrow>
        GetJobTestType parse c =
          (case py_int parse v of
             Inr i \<Rightarrow> Inr i
           | Inl e \<Rightarrow> if e = ValueError then Inr 0 else Inl e))"
  by (auto simp: GetJobTestType_def split: sum.splits)

lemma GetJobTestType_samples:
  "GetJobTestType decimal_int (demo_client PNone None) = Inr 0
   \<and> GetJobTestType decimal_int (demo_client (demo_job 1) None) = Inr 0
   \<and> GetJobTestType decimal_int (demo_client (PDict [(''test_type'', PInt 3)]) None) = Inr 3
   \<and> GetJobTestType decimal_int (demo_client (PDict [(''test_type'', PBool True)]) None) = Inr 1
   \<and> GetJobTestType decimal_int (demo_client (PDict [(''test_type'', PStr ''12'')]) None) = Inr 12
   \<and> GetJobTestType decimal_int (demo_client (PDict [(''test_type'', PStr ''camera'')]) None)
       = Inr 0
   \<and> GetJobTestType decimal_int (demo_client (PDict [(''test_type'', PFloat NaN)]) None) = Inr 0"
  by (simp add: GetJobTestType_def demo_client_def demo_job_def decimal_int_def)

text \<open>
  Claim C9 fails on the code. The claim: \<^verbatim>\<open>GetJobTestType\<close> returns 0 whenever the
  held job's \<^verbatim>\<open>test_type\<close> cannot be read as an integer, and never passes a malformed
  value on as a fault. The \<^verbatim>\<open>try\<close> block of the method catches \<^verbatim>\<open>ValueError\<close>
  only. For a held job whose \<^verbatim>\<open>test_type\<close> is JSON \<^verbatim>\<open>null\<close>, \<^verbatim>\<open>int(None)\<close>
  raises \<^verbatim>\<open>TypeError\<close>, and the exception reaches the caller instead of the default 0.
\<close>

theorem GetJobTestType_null_raises:
  "GetJobTestType decimal_int
     (demo_client (PDict [(''test_name'', PStr ''suite1/caseX''), (''test_type'', PNone)]) None)
   = Inl TypeError"
  by (simp add: GetJobTestType_def demo_client_def)

text \<open>
  The same slip with a float: JSON \<^verbatim>\<open>1e999\<close> is read as infinity, and
  \<^verbatim>\<open>int\<close> raises \<^verbatim>\<open>OverflowError\<close>.
\<close>

lemma GetJobTestType_infinity_raises:
  "GetJobTestType decimal_int (demo_client (PDict [(''test_type'', PFloat PosInf)]) None)
   = Inl OverflowError"
  by (simp add: GetJobTestType_def demo_client_def)

section \<open>Connection failures\<close>

text \<open>
  Claim C6 fails on the code. None of \<^verbatim>\<open>LeaseJob\<close>, \<^verbatim>\<open>StopHeartbeat\<close> and
  \<^verbatim>\<open>UpdateLeasedJobStatus\<close> wraps its request: when \<^verbatim>\<open>requests.post\<close> raises
  \<^verbatim>\<open>ConnectionError\<close>, each of them raises it to its caller. In \<^verbatim>\<open>StopHeartbeat\<close>
  the job then stays held, with the final status already written.
\<close>

theorem connection_error_propagates:
  "LeaseJob (init_client ''localhost'') ''hostA'' True (Raises ConnectionError)
     = (Inl ConnectionError, init_client ''localhost'',
        [Post ''http://localhost:8080/_ah/api/job_queue/v1/get''
           (PDict [(''hostname'', PStr ''hostA'')])])
   \<and> StopHeartbeat (demo_client (demo_job 1) (Some (demo_thread None))) ''complete'' []
       (Raises ConnectionError)
     = (Inl ConnectionError,
        demo_client (PDict [(''test_name'', PStr ''suite1/caseX''), (''status'', PInt 2),
                            (''infra_log_url'', PStr [])])
          (Some (demo_thread (Some False))),
        [SetKeepRunning False,
         SetJobItem ''status'' (PInt 2),
         SetJobItem ''infra_log_url'' (PStr []),
         Post ''http://localhost:8080/_ah/api/job_queue/v1/heartbeat''
           (PDict [(''test_name'', PStr ''suite1/caseX''), (''status'', PInt 2),
                   (''infra_log_url'', PStr [])])])
   \<and> UpdateLeasedJobStatus (demo_client (demo_job 0) (Some (demo_thread None))) ''leased'' 60
       [(None, demo_job 1, Raises ConnectionError)]
     = (Inl ConnectionError, demo_client (demo_job 1) (Some (demo_thread None)),
        [SetJobItem ''status'' (PInt 1),
         Post ''http://localhost:8080/_ah/api/job_queue/v1/heartbeat'' (demo_job 1)])"
  by (simp add: LeaseJob_def StopHeartbeat_def UpdateLeasedJobStatus_def
      SetJobStatusFromLeasedTo_def job_status_simps init_client_def
      demo_client_def demo_job_def demo_thread_def)

end
